theory Spec2Isabelle
  imports Complex_Main
begin

section \<open>Conventions of the embedding\<close>

text \<open>
  The Python sources of the LQM repository are embedded function by function.

  \<^item> A Python \<open>float\<close> is a \<open>pyfloat\<close>: a finite value, carried as an exact rational, or one
    of \<open>inf\<close>, \<open>-inf\<close> and \<open>nan\<close>, with the IEEE rules for the three special values. The
    rounding error of binary floating point and the overflow of finite values are not
    modelled. The general statements below are about signs, special values, the unit
    interval and the shape of the results, none of which depends on the digits of a
    computed score; the example inputs have scores (0.3, 0.9 and -1.0) away from every
    threshold and from every rounding tie. Python \<open>int\<close> values are \<^typ>\<open>int\<close>.
  \<^item> Every exception the sources can raise is a value of \<open>py_error\<close>; a function that
    can raise returns \<open>py_error + 'a\<close>, with \<open>Inl\<close> for the exception.
  \<^item> Global and external state (the Firestore counter document, the module global
    \<open>RULES\<close>, the user attributes of an Optuna trial) is passed explicitly and returned
    updated; on an exception the state reached so far is returned next to the error.
  \<^item> What the outside world supplies (the current UTC day, the downloaded price series,
    the outcome of the Cirq simulator, the values Optuna samples) is a parameter.
\<close>

datatype py_error =
    IndexError
  | KeyError
  | TypeError
  | ValueError
  | ZeroDivisionError
  | JSONDecodeError
  | OSError
  | BackendError
  | DownloadError

section \<open>Python floats\<close>

datatype pyfloat = Num rat | PosInf | NegInf | NaN

fun is_num :: "pyfloat \<Rightarrow> bool" where
  "is_num (Num x) = True"
| "is_num _ = False"

fun fneg :: "pyfloat \<Rightarrow> pyfloat" where
  "fneg (Num x) = Num (- x)"
| "fneg PosInf = NegInf"
| "fneg NegInf = PosInf"
| "fneg NaN = NaN"

fun fadd :: "pyfloat \<Rightarrow> pyfloat \<Rightarrow> pyfloat" where
  "fadd NaN y = NaN"
| "fadd x NaN = NaN"
| "fadd (Num a) (Num b) = Num (a + b)"
| "fadd PosInf NegInf = NaN"
| "fadd NegInf PosInf = NaN"
| "fadd PosInf y = PosInf"
| "fadd x PosInf = PosInf"
| "fadd NegInf y = NegInf"
| "fadd x NegInf = NegInf"

definition fsub :: "pyfloat \<Rightarrow> pyfloat \<Rightarrow> pyfloat" where
  "fsub x y = fadd x (fneg y)"

text \<open>The sign of a value that is not \<open>nan\<close>.\<close>

fun fsgn :: "pyfloat \<Rightarrow> int" where
  "fsgn (Num x) = (if x > 0 then 1 else if x < 0 then - 1 else 0)"
| "fsgn PosInf = 1"
| "fsgn NegInf = - 1"
| "fsgn NaN = 0"

fun fmul :: "pyfloat \<Rightarrow> pyfloat \<Rightarrow> pyfloat" where
  "fmul NaN y = NaN"
| "fmul x NaN = NaN"
| "fmul (Num a) (Num b) = Num (a * b)"
| "fmul x y =
     (let s = fsgn x * fsgn y
      in if s > 0 then PosInf else if s < 0 then NegInf else NaN)"

text \<open>
  IEEE division, as numpy performs it: a zero divisor gives an infinity or \<open>nan\<close>. The
  zero of the model is the positive zero.
\<close>

fun fdiv :: "pyfloat \<Rightarrow> pyfloat \<Rightarrow> pyfloat" where
  "fdiv NaN y = NaN"
| "fdiv x NaN = NaN"
| "fdiv (Num a) (Num b) =
     (if b = 0 then (if a = 0 then NaN else if a > 0 then PosInf else NegInf)
      else Num (a / b))"
| "fdiv (Num a) y = Num 0"
| "fdiv x (Num b) = (if b \<ge> 0 then x else fneg x)"
| "fdiv x y = NaN"

text \<open>Comparisons: every comparison with \<open>nan\<close> is false.\<close>

fun flt :: "pyfloat \<Rightarrow> pyfloat \<Rightarrow> bool" where
  "flt (Num a) (Num b) = (a < b)"
| "flt NegInf (Num b) = True"
| "flt NegInf PosInf = True"
| "flt (Num a) PosInf = True"
| "flt _ _ = False"

definition feq :: "pyfloat \<Rightarrow> pyfloat \<Rightarrow> bool" where
  "feq x y = (x = y \<and> x \<noteq> NaN)"

definition fle :: "pyfloat \<Rightarrow> pyfloat \<Rightarrow> bool" where
  "fle x y = (flt x y \<or> feq x y)"

definition fgt :: "pyfloat \<Rightarrow> pyfloat \<Rightarrow> bool" where
  "fgt x y = flt y x"

definition fge :: "pyfloat \<Rightarrow> pyfloat \<Rightarrow> bool" where
  "fge x y = fle y x"

fun fabs :: "pyfloat \<Rightarrow> pyfloat" where
  "fabs (Num x) = Num \<bar>x\<bar>"
| "fabs PosInf = PosInf"
| "fabs NegInf = PosInf"
| "fabs NaN = NaN"

text \<open>
  \<open>min(a, b)\<close> of Python: \<open>b\<close> when \<open>b < a\<close>, otherwise \<open>a\<close>; so \<open>min(nan, 1.0)\<close> is
  \<open>nan\<close>.
\<close>

definition py_min :: "pyfloat \<Rightarrow> pyfloat \<Rightarrow> pyfloat" where
  "py_min a b = (if flt b a then b else a)"

text \<open>\<open>a / b\<close> on Python floats raises \<open>ZeroDivisionError\<close> when \<open>b\<close> is zero.\<close>

definition py_div :: "pyfloat \<Rightarrow> pyfloat \<Rightarrow> py_error + pyfloat" where
  "py_div a b = (if b = Num 0 then Inl ZeroDivisionError else Inr (fdiv a b))"

text \<open>
  \<open>round(x, 2)\<close>: to the nearest multiple of 0.01, a tie going to the even neighbour;
  \<open>inf\<close>, \<open>-inf\<close> and \<open>nan\<close> are returned as they are. Python applies this rule to the
  exact value of the double; here it is applied to the rational the model carries, which
  is the value the double approximates.
\<close>

definition round_half_even :: "rat \<Rightarrow> int" where
  "round_half_even x =
     (let f = \<lfloor>x\<rfloor>; r = x - of_int f
      in if r < 1 / 2 then f
         else if r > 1 / 2 then f + 1
         else if even f then f else f + 1)"

definition round2 :: "rat \<Rightarrow> rat" where
  "round2 x = of_int (round_half_even (x * 100)) / 100"

fun py_round2 :: "pyfloat \<Rightarrow> pyfloat" where
  "py_round2 (Num x) = Num (round2 x)"
| "py_round2 x = x"

section \<open>firestore\_util.py: the daily shot budget\<close>

text \<open>
  The counter document \<open>lqm_logs/shot_counter\<close> maps a day key (\<open>YYYY-MM-DD\<close>) to the
  shots used on that day. \<open>None\<close> is the document that does not exist yet
  (\<open>snap.to_dict()\<close> is then \<open>None\<close> and the code continues with \<open>{}\<close>).
\<close>

type_synonym counter_data = "string \<rightharpoonup> int"
type_synonym counter_doc = "counter_data option"

definition DAILY_BUDGET :: int where
  "DAILY_BUDGET = 2500"

text \<open>\<open>snap.to_dict() or {}\<close>\<close>

definition to_dict_or_empty :: "counter_doc \<Rightarrow> counter_data" where
  "to_dict_or_empty doc = (case doc of None \<Rightarrow> Map.empty | Some d \<Rightarrow> d)"

text \<open>\<open>d.get(k, default)\<close>\<close>

definition dict_get :: "('k \<rightharpoonup> 'v) \<Rightarrow> 'k \<Rightarrow> 'v \<Rightarrow> 'v" where
  "dict_get d k dflt = (case d k of None \<Rightarrow> dflt | Some v \<Rightarrow> v)"

text \<open>
  The nested function \<open>txn\<close> of \<open>use_shots\<close> (lines 35 to 43), as a function of the day
  key, the amount and the document it reads. The result is the returned boolean and the
  document after it; on the rejecting branch \<open>tx.set\<close> is never reached, so the document
  is the one read.
\<close>

definition txn :: "string \<Rightarrow> int \<Rightarrow> counter_doc \<Rightarrow> bool \<times> counter_doc" where
  "txn today n doc =
     (let data = to_dict_or_empty doc;
          used = dict_get data today 0
      in if used + n > DAILY_BUDGET then (False, doc)
         else (True, Some (data(today \<mapsto> used + n))))"

text \<open>
  \<open>use_shots(n)\<close>. Its last line is \<open>return db.transaction()(txn)\<close>: it calls the
  \<open>Transaction\<close> object that \<open>db.transaction()\<close> returns. A \<open>Transaction\<close> of
  google-cloud-firestore is not callable (the library runs a function in a transaction
  through \<open>firestore.transactional(txn)(transaction)\<close>), so the call raises \<open>TypeError\<close>
  before \<open>txn\<close> runs: for every \<open>n\<close> and every document, \<open>use_shots\<close> raises and the
  document is left as it was.
\<close>

definition use_shots :: "string \<Rightarrow> int \<Rightarrow> counter_doc \<Rightarrow> (py_error + bool) \<times> counter_doc" where
  "use_shots today n doc = (Inl TypeError, doc)"

text \<open>
  What the docstring of \<open>use_shots\<close> describes: \<open>txn\<close> run once, atomically, and its
  result returned. This is not what the code does; it is here to state what the
  pipeline does with a quota call that works.
\<close>

definition use_shots_as_documented ::
  "string \<Rightarrow> int \<Rightarrow> counter_doc \<Rightarrow> (py_error + bool) \<times> counter_doc" where
  "use_shots_as_documented today n doc = (case txn today n doc of (ok, doc') \<Rightarrow> (Inr ok, doc'))"

text \<open>The usage a reader of the document sees for a day: \<open>data.get(day, 0)\<close>.\<close>

definition usage :: "counter_doc \<Rightarrow> string \<Rightarrow> int" where
  "usage doc day = dict_get (to_dict_or_empty doc) day 0"

text \<open>
  A quota call: from the day key, the amount and the document to what the call returns
  or raises and the document it leaves.
\<close>

type_synonym quota_call = "string \<Rightarrow> int \<Rightarrow> counter_doc \<Rightarrow> (py_error + bool) \<times> counter_doc"

text \<open>
  A sequence of reservation calls against the same day key, each applied to the
  document the previous one left; a call that raises is recorded and the next call is
  made. The result lists the outcome of every call.
\<close>

fun reserve_all ::
  "quota_call \<Rightarrow> string \<Rightarrow> int list \<Rightarrow> counter_doc \<Rightarrow> (py_error + bool) list \<times> counter_doc" where
  "reserve_all q today [] doc = ([], doc)"
| "reserve_all q today (n # ns) doc =
     (case q today n doc of
        (r, doc') \<Rightarrow>
          (case reserve_all q today ns doc' of
             (rs, doc'') \<Rightarrow> (r # rs, doc'')))"

text \<open>The sum of the amounts whose call returned true.\<close>

fun granted_sum :: "int list \<Rightarrow> (py_error + bool) list \<Rightarrow> int" where
  "granted_sum (n # ns) (r # rs) = (if r = Inr True then n else 0) + granted_sum ns rs"
| "granted_sum _ _ = 0"

section \<open>Python helpers\<close>

text \<open>Sequencing of computations that can raise: the first exception wins.\<close>

definition and_then :: "py_error + 'a \<Rightarrow> ('a \<Rightarrow> py_error + 'b) \<Rightarrow> py_error + 'b" where
  "and_then m f = (case m of Inl e \<Rightarrow> Inl e | Inr x \<Rightarrow> f x)"

text \<open>\<open>d[k]\<close> on a dict raises \<open>KeyError\<close> for a missing key.\<close>

definition dict_item :: "('k \<rightharpoonup> 'v) \<Rightarrow> 'k \<Rightarrow> py_error + 'v" where
  "dict_item d k = (case d k of None \<Rightarrow> Inl KeyError | Some v \<Rightarrow> Inr v)"

text \<open>\<open>xs[i]\<close> and \<open>xs[i] = v\<close> on a list, for \<open>i \<ge> 0\<close>; \<open>IndexError\<close> out of range.\<close>

definition list_item :: "'a list \<Rightarrow> nat \<Rightarrow> py_error + 'a" where
  "list_item xs i = (if i < length xs then Inr (xs ! i) else Inl IndexError)"

definition list_assign :: "'a list \<Rightarrow> nat \<Rightarrow> 'a \<Rightarrow> py_error + 'a list" where
  "list_assign xs i v = (if i < length xs then Inr (xs[i := v]) else Inl IndexError)"

text \<open>\<open>series.iloc[-k]\<close> for \<open>k \<ge> 1\<close>: the \<open>k\<close>-th element from the end.\<close>

definition iloc_from_end :: "'a list \<Rightarrow> nat \<Rightarrow> py_error + 'a" where
  "iloc_from_end xs k =
     (if 1 \<le> k \<and> k \<le> length xs then Inr (xs ! (length xs - k)) else Inl IndexError)"

text \<open>
  \<open>series.tail(w)\<close> and \<open>series.mean()\<close>. The mean of pandas skips \<open>nan\<close> entries and is
  \<open>nan\<close> when nothing is left.
\<close>

definition tail :: "nat \<Rightarrow> 'a list \<Rightarrow> 'a list" where
  "tail w xs = drop (length xs - w) xs"

definition mean :: "pyfloat list \<Rightarrow> pyfloat" where
  "mean xs =
     (let ys = filter (\<lambda>x. x \<noteq> NaN) xs
      in if ys = [] then NaN
         else fdiv (foldl fadd (Num 0) ys) (Num (of_nat (length ys))))"

section \<open>model.py: parameters\<close>

text \<open>
  A value of \<open>RULES\<close>: a number (\<open>true\<close> and \<open>false\<close> of JSON are the numbers 1 and 0 of
  Python), or anything else a JSON document can put there (a string, an array, an
  object, \<open>null\<close>), which raises \<open>TypeError\<close> in the statement where the scorer computes
  or compares with it.
\<close>

datatype py_value = Number pyfloat | NotNumber

type_synonym rules = "string \<rightharpoonup> py_value"

definition default_RULES :: rules where
  "default_RULES =
     [''ma_trend_weight'' \<mapsto> Number (Num (4 / 10)),
      ''rsi_extreme_weight'' \<mapsto> Number (Num (3 / 10)),
      ''vol_rank_weight'' \<mapsto> Number (Num (2 / 10)),
      ''momentum_3d_weight'' \<mapsto> Number (Num (1 / 10)),
      ''rsi_high'' \<mapsto> Number (Num 70),
      ''rsi_low'' \<mapsto> Number (Num 30),
      ''iv_rank_high'' \<mapsto> Number (Num (7 / 10)),
      ''iv_rank_low'' \<mapsto> Number (Num (3 / 10)),
      ''angle_0'' \<mapsto> Number (Num (15707 / 10000)),
      ''angle_1'' \<mapsto> Number (Num (15707 / 10000))]"

text \<open>
  What \<open>RULES.update(json.loads(p.read_text()))\<close> does on a file that exists.
  \<^item> \<open>Unreadable err\<close>: \<open>read_text\<close> raises \<open>err\<close> (\<open>OSError\<close> for a file that cannot be
    opened, \<open>ValueError\<close> for bytes that do not decode).
  \<^item> \<open>Malformed\<close>: the text is not JSON; \<open>json.loads\<close> raises \<open>JSONDecodeError\<close>.
  \<^item> \<open>Params override\<close>: the text is a JSON object, or an array of \<open>[key, value]\<close> pairs
    (the empty array among them); \<open>dict.update\<close> stores its keys. \<open>json.loads\<close> accepts
    \<open>NaN\<close> and \<open>Infinity\<close> as numbers. Keys that are not strings are never read by the
    code and are left out.
  \<^item> \<open>Rejected err\<close>: the text is JSON that \<open>dict.update\<close> does not take, and \<open>update\<close>
    raises \<open>err\<close>: \<open>TypeError\<close> for a number, \<open>true\<close>, \<open>false\<close>, \<open>null\<close> or an array with
    an element that is not a sequence, \<open>ValueError\<close> for a non-empty string or an array
    with an element whose length is not 2.
  A file system maps the two file names to their state; \<open>None\<close> is \<open>not p.exists()\<close>.
\<close>

datatype param_file = Unreadable py_error | Malformed | Params rules | Rejected py_error

type_synonym param_files = "string \<rightharpoonup> param_file"

text \<open>
  The module-level loop of model.py: the first file that exists is loaded into \<open>RULES\<close>
  with \<open>dict.update\<close> and the loop breaks. Nothing catches an exception.
\<close>

fun load_overrides :: "string list \<Rightarrow> param_files \<Rightarrow> rules \<Rightarrow> py_error + rules" where
  "load_overrides [] files R = Inr R"
| "load_overrides (fname # rest) files R =
     (case files fname of
        None \<Rightarrow> load_overrides rest files R
      | Some (Unreadable err) \<Rightarrow> Inl err
      | Some Malformed \<Rightarrow> Inl JSONDecodeError
      | Some (Rejected err) \<Rightarrow> Inl err
      | Some (Params override) \<Rightarrow> Inr (R ++ override))"

definition load_RULES :: "param_files \<Rightarrow> py_error + rules" where
  "load_RULES files = load_overrides [''best_params.json'', ''rules.json''] files default_RULES"

text \<open>\<open>RULES[k]\<close> where the code goes on to compute or compare with the value.\<close>

definition number_item :: "rules \<Rightarrow> string \<Rightarrow> py_error + pyfloat" where
  "number_item R k =
     and_then (dict_item R k) (\<lambda>v. case v of Number x \<Rightarrow> Inr x | NotNumber \<Rightarrow> Inl TypeError)"

section \<open>model.py: indicators\<close>

definition ma :: "pyfloat list \<Rightarrow> nat \<Rightarrow> pyfloat" where
  "ma closes w = mean (tail w closes)"

text \<open>\<open>df["Close"].diff().dropna()\<close>: the differences of neighbours that are not \<open>nan\<close>.\<close>

fun diff :: "pyfloat list \<Rightarrow> pyfloat list" where
  "diff (a # b # xs) =
     (if fsub b a = NaN then diff (b # xs) else fsub b a # diff (b # xs))"
| "diff _ = []"

text \<open>\<open>clip(lower=0)\<close> and \<open>clip(upper=0)\<close> on one entry.\<close>

definition clip_lower0 :: "pyfloat \<Rightarrow> pyfloat" where
  "clip_lower0 d = (if flt d (Num 0) then Num 0 else d)"

definition clip_upper0 :: "pyfloat \<Rightarrow> pyfloat" where
  "clip_upper0 d = (if flt (Num 0) d then Num 0 else d)"

definition rsi :: "pyfloat list \<Rightarrow> nat \<Rightarrow> py_error + pyfloat" where
  "rsi closes w =
     (let delta = diff closes;
          gains = map clip_lower0 delta;
          losses = map (\<lambda>d. fneg (clip_upper0 d)) delta
      in if length delta < w then Inr (Num 50)
         else
           let avg_gain = mean (tail w gains);
               avg_loss = mean (tail w losses)
           in if feq avg_loss (Num 0)
              then Inr (if fgt avg_gain (Num 0) then Num 100 else Num 50)
              else
                and_then (py_div avg_gain avg_loss) (\<lambda>rs.
                and_then (py_div (Num 100) (fadd (Num 1) rs)) (\<lambda>quot.
                  Inr (fsub (Num 100) quot))))"

definition iv_rank :: "pyfloat \<Rightarrow> pyfloat list \<Rightarrow> pyfloat" where
  "iv_rank cur_iv hist = mean (map (\<lambda>h. if flt h cur_iv then Num 1 else Num 0) hist)"

section \<open>model.py: the classical predictor\<close>

definition QPU_THRESHOLD :: pyfloat where
  "QPU_THRESHOLD = Num (75 / 100)"

text \<open>Lines 92 to 95: the RSI contribution, with the lookups in the order they run.\<close>

definition rsi_step :: "rules \<Rightarrow> pyfloat \<Rightarrow> pyfloat \<Rightarrow> py_error + pyfloat" where
  "rsi_step R rsi14 score =
     and_then (number_item R ''rsi_high'') (\<lambda>hi.
       if fge rsi14 hi
       then and_then (number_item R ''rsi_extreme_weight'') (\<lambda>w. Inr (fsub score w))
       else and_then (number_item R ''rsi_low'') (\<lambda>lo.
         if fle rsi14 lo
         then and_then (number_item R ''rsi_extreme_weight'') (\<lambda>w. Inr (fadd score w))
         else Inr score))"

text \<open>Lines 97 to 100: the IV-rank contribution.\<close>

definition iv_step :: "rules \<Rightarrow> pyfloat \<Rightarrow> pyfloat \<Rightarrow> py_error + pyfloat" where
  "iv_step R iv_rnk score =
     and_then (number_item R ''iv_rank_high'') (\<lambda>hi.
       if fge iv_rnk hi
       then and_then (number_item R ''vol_rank_weight'') (\<lambda>w. Inr (fsub score w))
       else and_then (number_item R ''iv_rank_low'') (\<lambda>lo.
         if fle iv_rnk lo
         then and_then (number_item R ''vol_rank_weight'') (\<lambda>w. Inr (fadd score w))
         else Inr score))"

text \<open>
  \<open>OptionsPredictor._classical_predict\<close>. \<open>fetched\<close> is what \<open>fetch_last_n\<close> returned:
  the column \<open>df["Close"]\<close>, oldest first, or the exception of the download. \<open>R\<close> is the
  module global \<open>RULES\<close>.
\<close>

definition classical_predict ::
  "rules \<Rightarrow> py_error + pyfloat list \<Rightarrow> py_error + (int \<times> pyfloat)" where
  "classical_predict R fetched =
     and_then fetched (\<lambda>df.
     and_then (iloc_from_end df 1) (\<lambda>close.
       let ma10 = ma df 10 in
     and_then (iloc_from_end df 4) (\<lambda>close4.
     and_then (py_div (fsub close close4) close4) (\<lambda>mom3d.
     and_then (rsi df 14) (\<lambda>rsi14.
       let iv_today = Num (35 / 100);
           iv_hist = [Num (25 / 100), Num (28 / 100), Num (30 / 100), Num (27 / 100),
                      Num (33 / 100), Num (38 / 100), Num (31 / 100)];
           iv_rnk = iv_rank iv_today iv_hist;
           score0 = Num 0
       in
     and_then (number_item R ''ma_trend_weight'') (\<lambda>w_ma.
       let score1 = fadd score0 (fmul w_ma (if fgt close ma10 then Num 1 else Num (- 1))) in
     and_then (number_item R ''momentum_3d_weight'') (\<lambda>w_mom.
       let score2 = fadd score1 (fmul w_mom (if fgt mom3d (Num 0) then Num 1 else Num (- 1))) in
     and_then (rsi_step R rsi14 score2) (\<lambda>score3.
     and_then (iv_step R iv_rnk score3) (\<lambda>score.
       let prediction = (if fge score (Num 0) then 1 else - 1);
           confidence = py_round2 (py_min (fabs score) (Num 1))
       in Inr (prediction, confidence))))))))))"

section \<open>circuits.py\<close>

text \<open>
  A feature record is the dict the caller passes. The circuit built from it is
  \<open>ry(theta)\<close> on the first qubit, a CNOT and a measurement of the first qubit under key
  \<open>m\<close>; it is determined by \<open>theta = diff * pi\<close>, kept here as \<open>diff\<close>, the angle in
  half turns. The name derived from the MD5 tag does not enter any result.
\<close>

type_synonym feature = "string \<rightharpoonup> pyfloat"

datatype circuit = Circuit (half_turns: pyfloat)

definition build_circuit :: "feature \<Rightarrow> py_error + circuit" where
  "build_circuit feature =
     and_then (dict_item feature ''spot_price'') (\<lambda>spot.
     and_then (dict_item feature ''strike_price'') (\<lambda>strike.
     and_then (py_div (fsub spot strike) strike) (\<lambda>diff.
       Inr (Circuit diff))))"

section \<open>qpu\_client.py\<close>

definition shots_per_row :: nat where
  "shots_per_row = 100"

text \<open>
  The Cirq simulator is outside the repository. Its \<open>k\<close>-th call within one \<open>submit\<close>
  either raises or returns one measured bit per repetition: \<open>run_fault\<close> says whether it
  raises, \<open>run_bit\<close> gives the bit of each repetition.
\<close>

record simulator =
  run_fault :: "nat \<Rightarrow> circuit \<Rightarrow> py_error option"
  run_bit :: "nat \<Rightarrow> circuit \<Rightarrow> nat \<Rightarrow> bool"

definition simulator_run :: "simulator \<Rightarrow> nat \<Rightarrow> circuit \<Rightarrow> nat \<Rightarrow> py_error + bool list" where
  "simulator_run s k c repetitions =
     (case run_fault s k c of
        Some e \<Rightarrow> Inl e
      | None \<Rightarrow> Inr (map (run_bit s k c) [0..<repetitions]))"

type_synonym histogram = "string \<rightharpoonup> int"

text \<open>Lines 19 to 21: the histogram appended for one simulator result.\<close>

definition count_histogram :: "bool list \<Rightarrow> histogram" where
  "count_histogram r =
     (let ones = int (length (filter (\<lambda>b. b) r));
          zeros = int shots_per_row - ones
      in [''1'' \<mapsto> ones, ''0'' \<mapsto> zeros])"

text \<open>The loop of \<open>submit\<close>, from the \<open>k\<close>-th circuit on.\<close>

fun submit_from :: "simulator \<Rightarrow> nat \<Rightarrow> circuit list \<Rightarrow> py_error + histogram list" where
  "submit_from s k [] = Inr []"
| "submit_from s k (c # cs) =
     and_then (simulator_run s k c shots_per_row) (\<lambda>r.
     and_then (submit_from s (Suc k) cs) (\<lambda>results.
       Inr (count_histogram r # results)))"

definition submit :: "simulator \<Rightarrow> circuit list \<Rightarrow> py_error + histogram list" where
  "submit s circuits = submit_from s 0 circuits"

section \<open>model.py: the batch API\<close>

definition SHOTS_PER_FEAT :: nat where
  "SHOTS_PER_FEAT = shots_per_row"

text \<open>What one call of \<open>batch_predict\<close> reads from outside the process.\<close>

record env =
  today_key :: string
  fetch_last_n :: "py_error + pyfloat list"
  cirq_simulator :: simulator

text \<open>\<open>[circuits.build_circuit(feats[i]) for i in idx_qpu]\<close>\<close>

fun build_batch :: "feature list \<Rightarrow> nat list \<Rightarrow> py_error + circuit list" where
  "build_batch feats [] = Inr []"
| "build_batch feats (i # idx) =
     and_then (list_item feats i) (\<lambda>f.
     and_then (build_circuit f) (\<lambda>c.
     and_then (build_batch feats idx) (\<lambda>cs. Inr (c # cs))))"

text \<open>
  Lines 124 to 129: the prediction and the confidence read from one histogram. The
  counts are integers and \<open>total\<close> is at least 1, so \<open>p_up\<close> is a finite number.
\<close>

definition p_up :: "histogram \<Rightarrow> rat" where
  "p_up h =
     (let ones = dict_get h ''1'' 0;
          zeros = dict_get h ''0'' 0;
          total = max (ones + zeros) 1
      in of_int ones / of_int total)"

definition refined_pred :: "histogram \<Rightarrow> int" where
  "refined_pred h = (if p_up h \<ge> 1 / 2 then 1 else - 1)"

definition refined_conf :: "histogram \<Rightarrow> pyfloat" where
  "refined_conf h = Num (round2 (\<bar>p_up h - 1 / 2\<bar> * 2))"

text \<open>The loop \<open>for j, i in enumerate(idx_qpu)\<close>, over the pairs \<open>(j, i)\<close> still to do.\<close>

fun fuse :: "histogram list \<Rightarrow> (nat \<times> nat) list \<Rightarrow> int list \<Rightarrow> pyfloat list
             \<Rightarrow> py_error + (int list \<times> pyfloat list)" where
  "fuse hists [] preds confs = Inr (preds, confs)"
| "fuse hists ((j, i) # rest) preds confs =
     and_then (list_item hists j) (\<lambda>h.
     and_then (list_assign preds i (refined_pred h)) (\<lambda>preds'.
     and_then (list_assign confs i (refined_conf h)) (\<lambda>confs'.
       fuse hists rest preds' confs')))"

text \<open>Line 114: the indices whose preview confidence reaches the threshold.\<close>

definition idx_qpu_of :: "pyfloat list \<Rightarrow> nat list" where
  "idx_qpu_of confs = map fst (filter (\<lambda>(i, c). fge c QPU_THRESHOLD) (enumerate 0 confs))"

text \<open>
  The body of \<open>OptionsPredictor.batch_predict\<close>, with the function bound to the name
  \<open>use_shots\<close> as the parameter \<open>q\<close>. The result is what the call returns or raises, and the
  counter document it leaves: what the quota call wrote stays in the document when a
  later step raises. An exception of the quota call leaves \<open>batch_predict\<close> like any
  other.
\<close>

definition batch_predict_with ::
  "quota_call \<Rightarrow> rules \<Rightarrow> env \<Rightarrow> feature list \<Rightarrow> counter_doc
     \<Rightarrow> (py_error + (int list \<times> pyfloat list)) \<times> counter_doc" where
  "batch_predict_with q R e feats doc =
     (case classical_predict R (fetch_last_n e) of
        Inl err \<Rightarrow> (Inl err, doc)
      | Inr (pred, conf) \<Rightarrow>
          let preds = replicate (length feats) pred;
              confs = replicate (length feats) conf;
              idx_qpu = idx_qpu_of confs;
              needed_shots = int (length idx_qpu) * int SHOTS_PER_FEAT
          in if idx_qpu = [] then (Inr (preds, confs), doc)
             else
               (case q (today_key e) needed_shots doc of
                  (Inl err, doc') \<Rightarrow> (Inl err, doc')
                | (Inr False, doc') \<Rightarrow> (Inr (preds, confs), doc')
                | (Inr True, doc') \<Rightarrow>
                    (and_then (build_batch feats idx_qpu) (\<lambda>circuits_batch.
                     and_then (submit (cirq_simulator e) circuits_batch) (\<lambda>hists.
                       fuse hists (enumerate 0 idx_qpu) preds confs)),
                     doc')))"

text \<open>\<open>batch_predict\<close> as the repository wires it: with \<open>use_shots\<close> of firestore\_util.py.\<close>

definition batch_predict ::
  "rules \<Rightarrow> env \<Rightarrow> feature list \<Rightarrow> counter_doc
     \<Rightarrow> (py_error + (int list \<times> pyfloat list)) \<times> counter_doc" where
  "batch_predict = batch_predict_with use_shots"

text \<open>
  The refinement phase when every index is selected (\<open>idx_qpu = [0, ..., len(feats) - 1]\<close>),
  which is the only non-empty selection \<open>batch_predict\<close> ever makes.
\<close>

definition refine_all ::
  "simulator \<Rightarrow> feature list \<Rightarrow> int list \<Rightarrow> pyfloat list
     \<Rightarrow> py_error + (int list \<times> pyfloat list)" where
  "refine_all s feats preds confs =
     and_then (build_batch feats [0..<length feats]) (\<lambda>circuits_batch.
     and_then (submit s circuits_batch) (\<lambda>hists.
       fuse hists (enumerate 0 [0..<length feats]) preds confs))"

text \<open>
  What the refinement yields for one record on its own, used to say which input an output
  entry belongs to: the circuit of the record, run as the \<open>k\<close>-th circuit of the
  batch, and the prediction and confidence read from its histogram.
\<close>

definition run_histogram :: "simulator \<Rightarrow> nat \<Rightarrow> circuit \<Rightarrow> py_error + histogram" where
  "run_histogram s k c =
     and_then (simulator_run s k c shots_per_row) (\<lambda>r. Inr (count_histogram r))"

definition refine_record :: "simulator \<Rightarrow> nat \<Rightarrow> feature \<Rightarrow> py_error + (int \<times> pyfloat)" where
  "refine_record s k f =
     and_then (build_circuit f) (\<lambda>c.
     and_then (run_histogram s k c) (\<lambda>h.
       Inr (refined_pred h, refined_conf h)))"

text \<open>
  The four weights of the score, and the parameter sets in which each of them is a
  finite number. A confidence lies in the unit interval when it is a finite number
  between 0 and 1.
\<close>

definition weight_keys :: "string list" where
  "weight_keys =
     [''ma_trend_weight'', ''momentum_3d_weight'', ''rsi_extreme_weight'', ''vol_rank_weight'']"

definition finite_weights :: "rules \<Rightarrow> bool" where
  "finite_weights R =
     list_all (\<lambda>k. case R k of Some (Number (Num w)) \<Rightarrow> True | _ \<Rightarrow> False) weight_keys"

fun in_unit :: "pyfloat \<Rightarrow> bool" where
  "in_unit (Num x) = (0 \<le> x \<and> x \<le> 1)"
| "in_unit _ = False"

section \<open>sim.py\<close>

definition build_features :: "pyfloat \<Rightarrow> feature list" where
  "build_features close_px =
     [[''spot_price'' \<mapsto> close_px,
       ''strike_price'' \<mapsto> fmul close_px (Num (105 / 100)),
       ''volatility'' \<mapsto> Num (25 / 100),
       ''time_to_maturity'' \<mapsto> Num (7 / 365),
       ''risk_free_rate'' \<mapsto> Num (3 / 100)]]"

text \<open>One row of the simulation; the date is the position of the day in the window.\<close>

record backtest_row =
  row_date :: nat
  ret_7d :: pyfloat
  signal :: int

text \<open>
  The loop of \<open>simulate\<close> over the pairs (today's close, the close seven rows later).
  \<open>envs k\<close> is what the \<open>k\<close>-th call of \<open>batch_predict\<close> reads from outside; \<open>R\<close> is the
  module global \<open>RULES\<close> of model.py, which the shared predictor reads.
\<close>

fun simulate_loop ::
  "rules \<Rightarrow> (nat \<Rightarrow> env) \<Rightarrow> nat \<Rightarrow> (pyfloat \<times> pyfloat) list \<Rightarrow> counter_doc
     \<Rightarrow> (py_error + backtest_row list) \<times> counter_doc" where
  "simulate_loop R envs k [] doc = (Inr [], doc)"
| "simulate_loop R envs k ((close_today, close_next) # rest) doc =
     (case batch_predict R (envs k) (build_features close_today) doc of
        (Inl err, doc') \<Rightarrow> (Inl err, doc')
      | (Inr (preds, confs), doc') \<Rightarrow>
          (case and_then (list_item preds 0) (\<lambda>sig.
                and_then (list_item confs 0) (\<lambda>conf.
                and_then (py_div (fsub close_next close_today) close_today) (\<lambda>ret.
                  Inr \<lparr>row_date = k, ret_7d = ret, signal = sig\<rparr>))) of
             Inl err \<Rightarrow> (Inl err, doc')
           | Inr row \<Rightarrow>
               (case simulate_loop R envs (Suc k) rest doc' of
                  (Inl err, doc'') \<Rightarrow> (Inl err, doc'')
                | (Inr rows, doc'') \<Rightarrow> (Inr (row # rows), doc''))))"

text \<open>\<open>simulate\<close>; \<open>download\<close> is the \<open>Close\<close> column of \<open>yf.download(ticker, start, end)\<close>.\<close>

definition simulate ::
  "rules \<Rightarrow> (nat \<Rightarrow> env) \<Rightarrow> py_error + pyfloat list \<Rightarrow> counter_doc
     \<Rightarrow> (py_error + backtest_row list) \<times> counter_doc" where
  "simulate R envs download doc =
     (case download of
        Inl err \<Rightarrow> (Inl err, doc)
      | Inr df \<Rightarrow>
          if df = [] \<or> length df < 8 then (Inl ValueError, doc)
          else simulate_loop R envs 0 (zip (take (length df - 7) df) (drop 7 df)) doc)"

section \<open>backtest.py\<close>

definition is_hit :: "backtest_row \<Rightarrow> bool" where
  "is_hit r =
     ((signal r > 0 \<and> fgt (ret_7d r) (Num 0)) \<or> (signal r < 0 \<and> flt (ret_7d r) (Num 0)))"

definition run_backtest ::
  "rules \<Rightarrow> (nat \<Rightarrow> env) \<Rightarrow> py_error + pyfloat list \<Rightarrow> counter_doc
     \<Rightarrow> (py_error + (backtest_row list \<times> pyfloat)) \<times> counter_doc" where
  "run_backtest R envs download doc =
     (case simulate R envs download doc of
        (Inl err, doc') \<Rightarrow> (Inl err, doc')
      | (Inr result_df, doc') \<Rightarrow>
          let hit = map is_hit result_df;
              hit_rate = (if hit \<noteq> [] then mean (map (\<lambda>b. if b then Num 1 else Num 0) hit)
                          else Num 0)
          in (Inr (result_df, hit_rate), doc'))"

section \<open>tune.py\<close>

text \<open>
  The file as checked in begins with the text of its module docstring, without the
  opening quotes; \<open>SEARCH_SPACE\<close> and \<open>objective\<close> are embedded as they are written below
  it.
\<close>

definition SEARCH_SPACE :: "(string \<times> pyfloat \<times> pyfloat) list" where
  "SEARCH_SPACE =
     [(''ma_trend_weight'', Num (- 1), Num 1),
      (''rsi_extreme_weight'', Num (- 1), Num 1),
      (''vol_rank_weight'', Num (- 1), Num 1),
      (''momentum_3d_weight'', Num (- 1), Num 1),
      (''angle_0'', Num 0, Num (314159 / 100000)),
      (''angle_1'', Num 0, Num (314159 / 100000))]"

text \<open>
  An Optuna trial: \<open>suggest_float\<close> is the value the sampler hands out for a name and a
  range, \<open>user_attrs\<close> the attributes stored on the trial.
\<close>

record trial =
  suggest_float :: "string \<Rightarrow> pyfloat \<Rightarrow> pyfloat \<Rightarrow> pyfloat"
  user_attrs :: "string \<rightharpoonup> pyfloat"

text \<open>The two loops at the head of \<open>objective\<close>.\<close>

definition suggest_params :: "trial \<Rightarrow> (string \<times> pyfloat) list" where
  "suggest_params tr = map (\<lambda>(k, lo, hi). (k, suggest_float tr k lo hi)) SEARCH_SPACE"

definition set_user_attrs :: "trial \<Rightarrow> (string \<times> pyfloat) list \<Rightarrow> trial" where
  "set_user_attrs tr params =
     tr\<lparr>user_attrs := fold (\<lambda>(k, v) attrs. attrs(k \<mapsto> v)) params (user_attrs tr)\<rparr>"

text \<open>
  \<open>objective(trial, target)\<close>. The state it can touch is the trial, the module global
  \<open>RULES\<close> of model.py and the counter document; all three are returned. The only
  statement between sampling and the backtest is \<open>trial.set_user_attr\<close>.
\<close>

definition objective ::
  "trial \<Rightarrow> pyfloat \<Rightarrow> (nat \<Rightarrow> env) \<Rightarrow> py_error + pyfloat list \<Rightarrow> rules \<Rightarrow> counter_doc
     \<Rightarrow> (py_error + pyfloat) \<times> trial \<times> rules \<times> counter_doc" where
  "objective tr target envs download R doc =
     (let params = suggest_params tr;
          tr' = set_user_attrs tr params
      in case run_backtest R envs download doc of
           (Inl err, doc') \<Rightarrow> (Inl err, tr', R, doc')
         | (Inr (result_df, hit_rate), doc') \<Rightarrow>
             let metric = fsub hit_rate (fabs (fsub target hit_rate))
             in (Inr metric, tr', R, doc'))"

text \<open>The parameter set a trial would score with if its sample were written to \<open>RULES\<close>.\<close>

definition candidate_RULES :: "rules \<Rightarrow> trial \<Rightarrow> rules" where
  "candidate_RULES R tr = R ++ map_of (map (\<lambda>(k, v). (k, Number v)) (suggest_params tr))"

section \<open>Example inputs\<close>

text \<open>
  Eight rising closes; a parameter set whose trend weight was raised to 1, so that the
  preview confidence (0.9) passes the threshold, and one whose trend weight is \<open>nan\<close>; two
  feature records, one with the strike above and one with the strike below the spot
  price; a simulator that measures 1 in 30 of 100 repetitions for a negative angle and
  in 80 for any other, and one that always raises; a sampler that returns the lower end
  of every range.
\<close>

abbreviation example_closes :: "pyfloat list" where
  "example_closes \<equiv>
     [Num 100, Num 101, Num 102, Num 103, Num 104, Num 105, Num 106, Num 107]"

abbreviation tuned_RULES :: rules where
  "tuned_RULES \<equiv> default_RULES(''ma_trend_weight'' \<mapsto> Number (Num 1))"

abbreviation nan_RULES :: rules where
  "nan_RULES \<equiv> default_RULES(''ma_trend_weight'' \<mapsto> Number NaN)"

abbreviation feature_below :: feature where
  "feature_below \<equiv> [''spot_price'' \<mapsto> Num 100, ''strike_price'' \<mapsto> Num 105]"

abbreviation feature_above :: feature where
  "feature_above \<equiv> [''spot_price'' \<mapsto> Num 100, ''strike_price'' \<mapsto> Num 95]"

abbreviation example_simulator :: simulator where
  "example_simulator \<equiv>
     \<lparr>run_fault = (\<lambda>k c. None),
      run_bit = (\<lambda>k c i. i < (if flt (half_turns c) (Num 0) then 30 else 80))\<rparr>"


abbreviation example_env :: "simulator \<Rightarrow> env" where
  "example_env s \<equiv>
     \<lparr>today_key = ''2026-01-01'', fetch_last_n = Inr example_closes, cirq_simulator = s\<rparr>"

abbreviation lowest_sampler :: trial where
  "lowest_sampler \<equiv> \<lparr>suggest_float = (\<lambda>k lo hi. lo), user_attrs = Map.empty\<rparr>"

section \<open>Lemmas about the helpers\<close>

lemma and_then_Inl [simp]: "and_then (Inl e) f = Inl e"
  by (simp add: and_then_def)

lemma and_then_Inr [simp]: "and_then (Inr x) f = f x"
  by (simp add: and_then_def)

lemma and_then_eq_Inr:
  "and_then m f = Inr y \<longleftrightarrow> (\<exists>x. m = Inr x \<and> f x = Inr y)"
  by (cases m) simp_all

lemma floor_le_round_half_even: "\<lfloor>x\<rfloor> \<le> round_half_even x"
  by (simp add: round_half_even_def Let_def)

lemma round_half_even_le: "round_half_even x \<le> \<lfloor>x\<rfloor> + 1"
  by (simp add: round_half_even_def Let_def)

lemma round_half_even_of_int: "round_half_even (of_int n) = n"
  by (simp add: round_half_even_def Let_def)

text \<open>Rounding to two decimals keeps a value of the unit interval inside it.\<close>

lemma round2_unit:
  assumes "0 \<le> x" "x \<le> 1"
  shows "0 \<le> round2 x \<and> round2 x \<le> 1"
proof -
  let ?y = "x * 100"
  have y0: "0 \<le> ?y" and y1: "?y \<le> 100" using assms by simp_all
  have "0 \<le> \<lfloor>?y\<rfloor>" using y0 by simp
  then have lo: "0 \<le> round_half_even ?y"
    using floor_le_round_half_even [of ?y] by linarith
  have hi: "round_half_even ?y \<le> 100"
  proof (cases "?y = 100")
    case True
    then have "round_half_even ?y = round_half_even (of_int 100)" by simp
    then show ?thesis by (simp only: round_half_even_of_int)
  next
    case False
    with y1 have "?y < 100" by simp
    then have "\<lfloor>?y\<rfloor> < 100" by (simp add: floor_less_iff)
    then show ?thesis using round_half_even_le [of ?y] by linarith
  qed
  from lo hi show ?thesis
    by (simp add: round2_def divide_le_eq)
qed

lemma twice_distance_from_half:
  fixes x :: rat
  shows "0 \<le> x \<Longrightarrow> x \<le> 1 \<Longrightarrow> \<bar>x - 1 / 2\<bar> * 2 \<le> 1"
  by (simp add: abs_if)

lemma is_num_conv: "is_num x \<longleftrightarrow> (\<exists>r. x = Num r)"
  by (cases x) simp_all

lemma is_num_fadd: "is_num x \<Longrightarrow> is_num y \<Longrightarrow> is_num (fadd x y)"
  by (auto simp: is_num_conv)

lemma is_num_fsub: "is_num x \<Longrightarrow> is_num y \<Longrightarrow> is_num (fsub x y)"
  by (auto simp: is_num_conv fsub_def)

lemma is_num_fmul: "is_num x \<Longrightarrow> is_num y \<Longrightarrow> is_num (fmul x y)"
  by (auto simp: is_num_conv)

text \<open>The confidence formula maps every finite score into the unit interval.\<close>

lemma confidence_in_unit:
  assumes "is_num score"
  shows "in_unit (py_round2 (py_min (fabs score) (Num 1)))"
proof -
  from assms obtain s where s: "score = Num s" by (auto simp: is_num_conv)
  have m: "py_min (fabs score) (Num 1) = Num (min \<bar>s\<bar> 1)"
    by (simp add: s py_min_def min_def)
  have "0 \<le> min \<bar>s\<bar> 1" "min \<bar>s\<bar> 1 \<le> 1" by simp_all
  from round2_unit [OF this] show ?thesis by (simp add: m)
qed

text \<open>For an infinite score it is 1, and for the score \<open>nan\<close> it is \<open>nan\<close>.\<close>

lemma confidence_in_unit_or_nan:
  "in_unit (py_round2 (py_min (fabs score) (Num 1)))
   \<or> py_round2 (py_min (fabs score) (Num 1)) = NaN"
proof (cases score)
  case (Num s)
  then have "is_num score" by simp
  then show ?thesis by (simp add: confidence_in_unit)
qed (simp_all add: py_min_def round2_def round_half_even_def)

section \<open>Properties of the quota allocator\<close>

lemma txn_granted:
  assumes "usage doc today + n \<le> DAILY_BUDGET"
  shows "txn today n doc =
           (True, Some ((to_dict_or_empty doc)(today \<mapsto> usage doc today + n)))"
  using assms by (simp add: txn_def usage_def Let_def)

lemma txn_denied:
  assumes "usage doc today + n > DAILY_BUDGET"
  shows "txn today n doc = (False, doc)"
  using assms by (simp add: txn_def usage_def Let_def)

lemma usage_after_set:
  "usage (Some (d(k \<mapsto> v))) day = (if day = k then v else dict_get d day 0)"
  by (simp add: usage_def to_dict_or_empty_def dict_get_def)

text \<open>
  The transaction function on its own is all-or-nothing: over budget it returns false and
  leaves the document, otherwise it returns true and adds exactly \<open>n\<close> to the day.
\<close>

lemma txn_all_or_nothing:
  "(usage doc today + n > 2500 \<longrightarrow> txn today n doc = (False, doc))
   \<and> (usage doc today + n \<le> 2500 \<longrightarrow>
        fst (txn today n doc) = True
        \<and> usage (snd (txn today n doc)) today = usage doc today + n
        \<and> (\<forall>d. d \<noteq> today \<longrightarrow> usage (snd (txn today n doc)) d = usage doc d))"
proof (cases "usage doc today + n > 2500")
  case True
  then show ?thesis by (simp add: txn_denied DAILY_BUDGET_def)
next
  case False
  then have le: "usage doc today + n \<le> DAILY_BUDGET"
    by (simp add: DAILY_BUDGET_def)
  note r = txn_granted [OF le]
  have other: "usage (snd (txn today n doc)) d = usage doc d" if "d \<noteq> today" for d
    using that by (simp add: r usage_after_set) (simp add: usage_def)
  have same: "usage (snd (txn today n doc)) today = usage doc today + n"
    by (simp add: r usage_after_set)
  from False r other same show ?thesis by simp
qed

text \<open>
  Claim C1. The claim describes \<open>use_shots\<close> as its docstring does. The code does
  something else: the last line of \<open>use_shots\<close> calls an object that is not callable, so
  for every amount and every document the call raises \<open>TypeError\<close> and the document is
  untouched. Nothing is granted and nothing is denied. At a day without usage a request
  for 100 shots raises, where the reservation the docstring describes returns true and
  brings the day's usage to 100.
\<close>

theorem use_shots_raises:
  "use_shots today n doc = (Inl TypeError, doc)
   \<and> fst (use_shots ''2026-01-01'' 100 None) = Inl TypeError
   \<and> fst (use_shots_as_documented ''2026-01-01'' 100 None) = Inr True
   \<and> usage (snd (use_shots_as_documented ''2026-01-01'' 100 None)) ''2026-01-01'' = 100
   \<and> usage (snd (use_shots ''2026-01-01'' 100 None)) ''2026-01-01'' = 0"
  by (simp add: use_shots_def use_shots_as_documented_def txn_def Let_def
        to_dict_or_empty_def dict_get_def DAILY_BUDGET_def usage_def)

lemma txn_usage_step:
  "usage (snd (txn today n doc)) today =
     usage doc today + (if fst (txn today n doc) then n else 0)"
  by (simp add: txn_def usage_def Let_def to_dict_or_empty_def dict_get_def)

lemma txn_bounded:
  "usage doc today \<le> DAILY_BUDGET \<Longrightarrow>
     usage (snd (txn today n doc)) today \<le> DAILY_BUDGET"
  by (simp add: txn_def usage_def Let_def to_dict_or_empty_def dict_get_def)

lemma documented_fst: "fst (use_shots_as_documented today n doc) = Inr (fst (txn today n doc))"
  by (simp add: use_shots_as_documented_def case_prod_unfold)

lemma documented_snd: "snd (use_shots_as_documented today n doc) = snd (txn today n doc)"
  by (simp add: use_shots_as_documented_def case_prod_unfold)

lemma reserve_all_Cons:
  "reserve_all q today (n # ns) doc =
     (fst (q today n doc) # fst (reserve_all q today ns (snd (q today n doc))),
      snd (reserve_all q today ns (snd (q today n doc))))"
  by (simp add: case_prod_unfold)

text \<open>With \<open>use_shots\<close> as written every call of a sequence raises.\<close>

lemma reserve_all_use_shots:
  "reserve_all use_shots today ns doc = (map (\<lambda>n. Inl TypeError) ns, doc)"
  by (induction ns arbitrary: doc) (simp_all add: use_shots_def)

lemma granted_sum_raises: "granted_sum ns (map (\<lambda>n. Inl TypeError) ns) = 0"
  by (induction ns) simp_all

lemma reserve_all_usage:
  "usage (snd (reserve_all use_shots_as_documented today ns doc)) today =
     usage doc today + granted_sum ns (fst (reserve_all use_shots_as_documented today ns doc))"
proof (induction ns arbitrary: doc)
  case Nil
  then show ?case by simp
next
  case (Cons n ns)
  show ?case
    unfolding reserve_all_Cons
    by (simp add: Cons.IH documented_fst documented_snd txn_usage_step)
qed

lemma reserve_all_bounded:
  "usage doc today \<le> DAILY_BUDGET \<Longrightarrow>
     usage (snd (reserve_all use_shots_as_documented today ns doc)) today \<le> DAILY_BUDGET"
proof (induction ns arbitrary: doc)
  case Nil
  then show ?case by simp
next
  case (Cons n ns)
  from txn_bounded [OF Cons.prems]
  have "usage (snd (txn today n doc)) today \<le> DAILY_BUDGET" .
  from Cons.IH [OF this] show ?case
    unfolding reserve_all_Cons by (simp add: documented_snd)
qed

lemma reserve_all_take:
  "fst (reserve_all q today (take k ns) doc) = take k (fst (reserve_all q today ns doc))"
proof (induction ns arbitrary: doc k)
  case Nil
  then show ?case by simp
next
  case (Cons n ns)
  show ?case
  proof (cases k)
    case 0
    then show ?thesis by simp
  next
    case (Suc j)
    then show ?thesis
      unfolding reserve_all_Cons by (simp add: Cons.IH reserve_all_Cons del: reserve_all.simps)
  qed
qed

text \<open>
  Claim C2. Take any sequence \<open>ns\<close> of reservation requests, applied one after the other
  to the same UTC day key, starting from a document in which that day has no usage.
  After any number \<open>k\<close> of them, the sum of the amounts granted so far (the calls that
  returned true) is at most the daily budget of 2500. This holds of \<open>use_shots\<close> as
  written, where every call raises and the sum stays 0, and it holds of the reservation
  the docstring describes, where each call runs the transaction function once. Requests
  run one at a time: the serialisation of concurrent callers is not part of the model.
\<close>

theorem granted_never_exceeds_budget:
  assumes fresh: "usage doc today = 0"
  shows "granted_sum (take k ns) (take k (fst (reserve_all use_shots today ns doc))) \<le> 2500
       \<and> granted_sum (take k ns)
           (take k (fst (reserve_all use_shots_as_documented today ns doc))) \<le> 2500"
proof
  have "granted_sum (take k ns) (take k (fst (reserve_all use_shots today ns doc))) = 0"
    by (simp add: reserve_all_use_shots take_map granted_sum_raises)
  then show "granted_sum (take k ns) (take k (fst (reserve_all use_shots today ns doc))) \<le> 2500"
    by simp
next
  let ?r = "reserve_all use_shots_as_documented today (take k ns) doc"
  have "usage (snd ?r) today = usage doc today + granted_sum (take k ns) (fst ?r)"
    by (rule reserve_all_usage)
  moreover have "usage (snd ?r) today \<le> DAILY_BUDGET"
    using reserve_all_bounded [of doc today "take k ns"] fresh
    by (simp add: DAILY_BUDGET_def)
  ultimately show "granted_sum (take k ns)
      (take k (fst (reserve_all use_shots_as_documented today ns doc))) \<le> 2500"
    using fresh by (simp add: DAILY_BUDGET_def reserve_all_take)
qed

theorem granted_never_exceeds_budget_witness:
  "usage None ''2026-01-01'' = 0
   \<and> fst (reserve_all use_shots ''2026-01-01'' [1000, 1000, 1000, 400, 200] None)
       = [Inl TypeError, Inl TypeError, Inl TypeError, Inl TypeError, Inl TypeError]
   \<and> fst (reserve_all use_shots_as_documented ''2026-01-01'' [1000, 1000, 1000, 400, 200] None)
       = [Inr True, Inr True, Inr False, Inr True, Inr False]
   \<and> granted_sum (take 5 [1000, 1000, 1000, 400, 200])
       (take 5 (fst (reserve_all use_shots ''2026-01-01'' [1000, 1000, 1000, 400, 200] None)))
       \<le> 2500
   \<and> granted_sum (take 5 [1000, 1000, 1000, 400, 200])
       (take 5 (fst (reserve_all use_shots_as_documented ''2026-01-01''
                       [1000, 1000, 1000, 400, 200] None))) \<le> 2500"
proof -
  have fresh: "usage None ''2026-01-01'' = 0"
    by (simp add: usage_def to_dict_or_empty_def dict_get_def)
  have real: "fst (reserve_all use_shots ''2026-01-01'' [1000, 1000, 1000, 400, 200] None)
       = [Inl TypeError, Inl TypeError, Inl TypeError, Inl TypeError, Inl TypeError]"
    by (simp add: use_shots_def)
  have run: "fst (reserve_all use_shots_as_documented ''2026-01-01''
                    [1000, 1000, 1000, 400, 200] None)
               = [Inr True, Inr True, Inr False, Inr True, Inr False]"
    by (simp add: use_shots_as_documented_def txn_def Let_def to_dict_or_empty_def
          dict_get_def DAILY_BUDGET_def)
  from fresh real run
    granted_never_exceeds_budget [OF fresh, of 5 "[1000, 1000, 1000, 400, 200]"]
  show ?thesis by simp
qed

section \<open>Properties of the classical predictor\<close>

lemma number_item_finite:
  assumes "finite_weights R" "k \<in> set weight_keys" "number_item R k = Inr w"
  shows "is_num w"
proof -
  from assms(1,2) have "case R k of Some (Number (Num w)) \<Rightarrow> True | _ \<Rightarrow> False"
    by (simp add: finite_weights_def list_all_iff)
  with assms(3) show ?thesis
    by (auto simp: number_item_def dict_item_def split: option.splits py_value.splits
          pyfloat.splits)
qed

lemma rsi_step_is_num:
  assumes "finite_weights R" "is_num score" "rsi_step R v score = Inr s"
  shows "is_num s"
proof -
  have w: "is_num w" if "number_item R ''rsi_extreme_weight'' = Inr w" for w
    using number_item_finite [OF assms(1) _ that] by (simp add: weight_keys_def)
  from assms(3) consider "s = score"
    | w where "number_item R ''rsi_extreme_weight'' = Inr w" "s = fsub score w"
    | w where "number_item R ''rsi_extreme_weight'' = Inr w" "s = fadd score w"
    by (auto simp: rsi_step_def and_then_eq_Inr split: if_splits)
  then show ?thesis
  proof cases
    case 1
    with assms(2) show ?thesis by simp
  next
    case (2 w)
    with assms(2) w [of w] show ?thesis by (simp add: is_num_fsub)
  next
    case (3 w)
    with assms(2) w [of w] show ?thesis by (simp add: is_num_fadd)
  qed
qed

lemma iv_step_is_num:
  assumes "finite_weights R" "is_num score" "iv_step R v score = Inr s"
  shows "is_num s"
proof -
  have w: "is_num w" if "number_item R ''vol_rank_weight'' = Inr w" for w
    using number_item_finite [OF assms(1) _ that] by (simp add: weight_keys_def)
  from assms(3) consider "s = score"
    | w where "number_item R ''vol_rank_weight'' = Inr w" "s = fsub score w"
    | w where "number_item R ''vol_rank_weight'' = Inr w" "s = fadd score w"
    by (auto simp: iv_step_def and_then_eq_Inr split: if_splits)
  then show ?thesis
  proof cases
    case 1
    with assms(2) show ?thesis by simp
  next
    case (2 w)
    with assms(2) w [of w] show ?thesis by (simp add: is_num_fsub)
  next
    case (3 w)
    with assms(2) w [of w] show ?thesis by (simp add: is_num_fadd)
  qed
qed

text \<open>
  The predictor returns a signal of \<open>+1\<close> or \<open>-1\<close>, and a confidence that is in the unit
  interval or \<open>nan\<close>; it is in the unit interval when the four weights are finite numbers.
\<close>

lemma classical_predict_range:
  assumes "classical_predict R fetched = Inr (p, c)"
  shows "(p = 1 \<or> p = - 1) \<and> (in_unit c \<or> c = NaN) \<and> (finite_weights R \<longrightarrow> in_unit c)"
proof -
  from assms obtain w_ma w_mom b1 b2 rsi14 iv score3 score where
    wma: "number_item R ''ma_trend_weight'' = Inr w_ma" and
    wmom: "number_item R ''momentum_3d_weight'' = Inr w_mom" and
    s3: "rsi_step R rsi14
           (fadd (fadd (Num 0) (fmul w_ma (if b1 then Num 1 else Num (- 1))))
              (fmul w_mom (if b2 then Num 1 else Num (- 1)))) = Inr score3" and
    s4: "iv_step R iv score3 = Inr score" and
    p: "p = (if fge score (Num 0) then 1 else - 1)" and
    c: "c = py_round2 (py_min (fabs score) (Num 1))"
    unfolding classical_predict_def Let_def and_then_eq_Inr by blast
  have "in_unit c" if fin: "finite_weights R"
  proof -
    have a: "is_num w_ma"
      using number_item_finite [OF fin _ wma] by (simp add: weight_keys_def)
    have b: "is_num w_mom"
      using number_item_finite [OF fin _ wmom] by (simp add: weight_keys_def)
    have n1: "is_num (if b1 then Num 1 else Num (- 1))"
      and n2: "is_num (if b2 then Num 1 else Num (- 1))" by simp_all
    have "is_num (fadd (fadd (Num 0) (fmul w_ma (if b1 then Num 1 else Num (- 1))))
              (fmul w_mom (if b2 then Num 1 else Num (- 1))))"
      by (intro is_num_fadd is_num_fmul a b n1 n2) simp
    from rsi_step_is_num [OF fin this s3] have "is_num score3" .
    from iv_step_is_num [OF fin this s4] have "is_num score" .
    then show ?thesis unfolding c by (rule confidence_in_unit)
  qed
  moreover have "in_unit c \<or> c = NaN"
    unfolding c by (rule confidence_in_unit_or_nan)
  ultimately show ?thesis using p by simp
qed

lemma example_preview_default:
  "classical_predict default_RULES (Inr example_closes) = Inr (1, Num (3 / 10))"
  by code_simp


lemma example_preview_nan:
  "classical_predict nan_RULES (Inr example_closes) = Inr (- 1, NaN)"
  by code_simp

section \<open>Properties of the batch API\<close>

subsection \<open>The selection\<close>

lemma enumerate_replicate:
  "enumerate k (replicate n c) = map (\<lambda>i. (i, c)) [k..<k + n]"
  by (simp add: enumerate_eq_zip zip_replicate2)

text \<open>One preview for the whole batch: the comprehension keeps every index or none.\<close>

lemma idx_qpu_of_replicate:
  "idx_qpu_of (replicate n c) = (if fge c QPU_THRESHOLD then [0..<n] else [])"
  by (simp add: idx_qpu_of_def enumerate_replicate filter_map comp_def)

lemma enumerate_upt: "enumerate 0 [0..<n] = map (\<lambda>i. (i, i)) [0..<n]"
  by (simp add: enumerate_eq_zip zip_same_conv_map)

subsection \<open>The three loops of the refinement phase\<close>

lemma build_batch_Inr:
  "build_batch feats idx = Inr cs \<longleftrightarrow>
     list_all2 (\<lambda>i c. i < length feats \<and> build_circuit (feats ! i) = Inr c) idx cs"
proof (induction idx arbitrary: cs)
  case Nil
  then show ?case by auto
next
  case (Cons i idx)
  show ?case
    by (auto simp: and_then_eq_Inr list_item_def Cons.IH list_all2_Cons1)
qed

lemma submit_from_Inr:
  "submit_from s k cs = Inr hs \<longleftrightarrow>
     list_all2 (\<lambda>(j, c) h. run_histogram s j c = Inr h) (enumerate k cs) hs"
proof (induction cs arbitrary: k hs)
  case Nil
  then show ?case by auto
next
  case (Cons c cs)
  show ?case
    by (auto simp: and_then_eq_Inr run_histogram_def Cons.IH list_all2_Cons1)
qed

text \<open>
  The fusion loop over the pairs \<open>(k, k), ..., (n - 1, n - 1)\<close> overwrites the entries
  from \<open>k\<close> on with what the histograms say, and never raises.
\<close>

lemma fuse_identity:
  assumes "length preds = n" "length confs = n" "length hists = n" "k \<le> n"
  shows "fuse hists (map (\<lambda>i. (i, i)) [k..<n]) preds confs =
           Inr (take k preds @ map refined_pred (drop k hists),
                take k confs @ map refined_conf (drop k hists))"
  using assms
proof (induction "n - k" arbitrary: k preds confs)
  case 0
  then show ?case by simp
next
  case (Suc d)
  then have lt: "k < n" by simp
  have up: "[k..<n] = k # [Suc k..<n]" using lt by (simp add: upt_conv_Cons)
  have dr: "drop k hists = hists ! k # drop (Suc k) hists"
    using lt Suc.prems by (simp add: Cons_nth_drop_Suc)
  have IH: "fuse hists (map (\<lambda>i. (i, i)) [Suc k..<n]) (preds[k := refined_pred (hists ! k)])
              (confs[k := refined_conf (hists ! k)]) =
            Inr (take (Suc k) (preds[k := refined_pred (hists ! k)])
                   @ map refined_pred (drop (Suc k) hists),
                 take (Suc k) (confs[k := refined_conf (hists ! k)])
                   @ map refined_conf (drop (Suc k) hists))"
    using Suc.hyps Suc.prems lt by (intro Suc.hyps(1)) simp_all
  show ?case
    using lt Suc.prems
    by (simp add: up dr IH list_item_def list_assign_def take_Suc_conv_app_nth)
qed

lemma fuse_all:
  assumes "length preds = n" "length confs = n" "length hists = n"
  shows "fuse hists (enumerate 0 [0..<n]) preds confs =
           Inr (map refined_pred hists, map refined_conf hists)"
  using fuse_identity [OF assms, of 0] by (simp add: enumerate_upt)

lemma build_batch_all:
  "build_batch feats [0..<length feats] = Inr cs \<longleftrightarrow>
     length cs = length feats \<and> (\<forall>i<length feats. build_circuit (feats ! i) = Inr (cs ! i))"
  by (auto simp: build_batch_Inr list_all2_conv_all_nth)

lemma submit_all:
  "submit s cs = Inr hs \<longleftrightarrow>
     length hs = length cs \<and> (\<forall>i<length cs. run_histogram s i (cs ! i) = Inr (hs ! i))"
  by (auto simp: submit_def submit_from_Inr list_all2_conv_all_nth nth_enumerate_eq)

text \<open>
  The refinement phase returns exactly when every record refines on its own, and then
  entry \<open>i\<close> of both outputs is the refinement of record \<open>i\<close>.
\<close>

lemma refine_all_Inr:
  assumes len: "length preds = length feats" "length confs = length feats"
  shows "refine_all s feats preds confs = Inr (ps, cs) \<longleftrightarrow>
           length ps = length feats \<and> length cs = length feats \<and>
           (\<forall>i<length feats. refine_record s i (feats ! i) = Inr (ps ! i, cs ! i))"
    (is "?L \<longleftrightarrow> ?R")
proof
  assume ?L
  then obtain cb hists where
    cb: "build_batch feats [0..<length feats] = Inr cb" and
    hs: "submit s cb = Inr hists" and
    fu: "fuse hists (enumerate 0 [0..<length feats]) preds confs = Inr (ps, cs)"
    by (auto simp: refine_all_def and_then_eq_Inr)
  from cb have lcb: "length cb = length feats"
    and bc: "\<And>i. i < length feats \<Longrightarrow> build_circuit (feats ! i) = Inr (cb ! i)"
    by (simp_all add: build_batch_all)
  from hs lcb have lhs: "length hists = length feats"
    and rh: "\<And>i. i < length feats \<Longrightarrow> run_histogram s i (cb ! i) = Inr (hists ! i)"
    by (simp_all add: submit_all)
  from fu fuse_all [OF len lhs]
  have ps: "ps = map refined_pred hists" and cs: "cs = map refined_conf hists" by simp_all
  show ?R
    using lhs by (simp add: ps cs refine_record_def bc rh)
next
  assume R: ?R
  define cb where "cb = map (\<lambda>f. projr (build_circuit f)) feats"
  define hists where "hists = map (\<lambda>i. projr (run_histogram s i (cb ! i))) [0..<length feats]"
  have rr: "refine_record s i (feats ! i) = Inr (ps ! i, cs ! i)" if "i < length feats" for i
    using R that by simp
  have bc: "build_circuit (feats ! i) = Inr (cb ! i)" if "i < length feats" for i
    using rr [OF that] that by (auto simp: refine_record_def and_then_eq_Inr cb_def)
  have rh: "run_histogram s i (cb ! i) = Inr (hists ! i)" if "i < length feats" for i
    using rr [OF that] that bc [OF that]
    by (auto simp: refine_record_def and_then_eq_Inr hists_def)
  have pc: "refined_pred (hists ! i) = ps ! i \<and> refined_conf (hists ! i) = cs ! i"
    if "i < length feats" for i
    using rr [OF that] bc [OF that] rh [OF that] by (simp add: refine_record_def)
  have lcb: "length cb = length feats" by (simp add: cb_def)
  have lhs: "length hists = length feats" by (simp add: hists_def)
  have b: "build_batch feats [0..<length feats] = Inr cb"
    by (simp add: build_batch_all lcb bc)
  have h: "submit s cb = Inr hists"
    by (simp add: submit_all lcb lhs rh)
  have "map refined_pred hists = ps" "map refined_conf hists = cs"
    using R lhs pc by (auto simp: list_eq_iff_nth_eq)
  then show ?L
    by (simp add: refine_all_def b h fuse_all [OF len lhs])
qed

subsection \<open>The branches of batch\_predict\<close>

lemma batch_predict_preview_error:
  "classical_predict R (fetch_last_n e) = Inl err \<Longrightarrow>
     batch_predict_with q R e feats doc = (Inl err, doc)"
  by (simp add: batch_predict_with_def)

text \<open>Nothing selected: the preview comes back and the quota call is not made.\<close>

lemma batch_predict_unrefined:
  assumes "classical_predict R (fetch_last_n e) = Inr (pred, conf)"
    and "\<not> fge conf QPU_THRESHOLD \<or> feats = []"
  shows "batch_predict_with q R e feats doc =
           (Inr (replicate (length feats) pred, replicate (length feats) conf), doc)"
  using assms by (auto simp: batch_predict_with_def idx_qpu_of_replicate Let_def)

text \<open>A non-empty selection: the quota call decides.\<close>

lemma batch_predict_selected:
  assumes "classical_predict R (fetch_last_n e) = Inr (pred, conf)"
    and "fge conf QPU_THRESHOLD" and "feats \<noteq> []"
  shows "batch_predict_with q R e feats doc =
           (case fst (q (today_key e) (int (length feats) * int SHOTS_PER_FEAT) doc) of
              Inl err \<Rightarrow> Inl err
            | Inr True \<Rightarrow> refine_all (cirq_simulator e) feats
                            (replicate (length feats) pred) (replicate (length feats) conf)
            | Inr False \<Rightarrow> Inr (replicate (length feats) pred, replicate (length feats) conf),
            snd (q (today_key e) (int (length feats) * int SHOTS_PER_FEAT) doc))"
  using assms
  by (simp add: batch_predict_with_def idx_qpu_of_replicate Let_def refine_all_def
        case_prod_unfold split: sum.splits bool.splits)

text \<open>With \<open>use_shots\<close> as written, every non-empty selection ends in its \<open>TypeError\<close>.\<close>

lemma batch_predict_selected_raises:
  assumes "classical_predict R (fetch_last_n e) = Inr (pred, conf)"
    and "fge conf QPU_THRESHOLD" and "feats \<noteq> []"
  shows "batch_predict R e feats doc = (Inl TypeError, doc)"
  unfolding batch_predict_def
  by (simp add: batch_predict_selected [OF assms] use_shots_def)


text \<open>What a normal return of \<open>batch_predict\<close> looks like, whatever the quota call does.\<close>

lemma batch_predict_Inr_shape:
  assumes ret: "fst (batch_predict_with q R e feats doc) = Inr (preds, confs)"
  shows "\<exists>pred conf. classical_predict R (fetch_last_n e) = Inr (pred, conf) \<and>
           ((preds = replicate (length feats) pred \<and> confs = replicate (length feats) conf)
            \<or> (length preds = length feats \<and> length confs = length feats \<and>
                (\<forall>i<length feats.
                   refine_record (cirq_simulator e) i (feats ! i) = Inr (preds ! i, confs ! i))))"
proof (cases "classical_predict R (fetch_last_n e)")
  case (Inl err)
  with ret show ?thesis by (simp add: batch_predict_preview_error)
next
  case (Inr pc)
  obtain pred conf where "pc = (pred, conf)" by (cases pc)
  with Inr have preview: "classical_predict R (fetch_last_n e) = Inr (pred, conf)" by simp
  show ?thesis
  proof (cases "fge conf QPU_THRESHOLD \<and> feats \<noteq> []")
    case False
    then have "\<not> fge conf QPU_THRESHOLD \<or> feats = []" by auto
    from batch_predict_unrefined [OF preview this, of q doc] ret preview
    show ?thesis by simp
  next
    case True
    then have sel: "fge conf QPU_THRESHOLD" "feats \<noteq> []" by simp_all
    note bp = batch_predict_selected [OF preview sel, of q doc]
    show ?thesis
    proof (cases "fst (q (today_key e) (int (length feats) * int SHOTS_PER_FEAT) doc)")
      case (Inl err)
      with bp ret show ?thesis by simp
    next
      case (Inr ok)
      show ?thesis
      proof (cases ok)
        case True
        with Inr bp ret have "refine_all (cirq_simulator e) feats
            (replicate (length feats) pred) (replicate (length feats) conf) = Inr (preds, confs)"
          by simp
        then show ?thesis using preview by (simp add: refine_all_Inr)
      next
        case False
        with Inr bp ret preview show ?thesis by simp
      qed
    qed
  qed
qed

subsection \<open>Evaluations on the example inputs\<close>

lemma example_refined:
  "fst (batch_predict_with use_shots_as_documented tuned_RULES (example_env example_simulator)
          [feature_below, feature_above, feature_below] None)
     = Inr ([- 1, 1, - 1], [Num (2 / 5), Num (3 / 5), Num (2 / 5)])"
  by code_simp



lemma example_nan:
  "fst (batch_predict nan_RULES (example_env example_simulator)
          [feature_below, feature_above, feature_below] None)
     = Inr ([- 1, - 1, - 1], [NaN, NaN, NaN])"
  by code_simp

subsection \<open>Length and order of the outputs\<close>



subsection \<open>Fallback to the preview\<close>



subsection \<open>A fault of the backend\<close>




subsection \<open>All or none\<close>

text \<open>
  Claim C10. The preview is computed once and broadcast, so the selection
  \<open>confidence \<ge> 0.75\<close> keeps every index of the batch or none. Hence whenever
  \<open>batch_predict\<close> returns, whatever the quota call did, either every record was refined
  (each entry is the refinement of its record) or none was, and then all records carry
  the same result, the preview.
\<close>

theorem escalation_all_or_none:
  fixes feats :: "feature list"
  assumes preview: "classical_predict R (fetch_last_n e) = Inr (pred, conf)"
  defines "idx_qpu \<equiv> idx_qpu_of (replicate (length feats) conf)"
  shows "(idx_qpu = [0..<length feats] \<or> idx_qpu = [])
       \<and> (fst (batch_predict_with q R e feats doc) = Inr (preds, confs) \<longrightarrow>
            (\<forall>i<length feats.
               refine_record (cirq_simulator e) i (feats ! i) = Inr (preds ! i, confs ! i))
            \<or> (preds = replicate (length feats) pred \<and> confs = replicate (length feats) conf))
       \<and> (fst (batch_predict R e feats doc) = Inr (preds, confs) \<longrightarrow>
            preds = replicate (length feats) pred \<and> confs = replicate (length feats) conf)"
proof (intro conjI impI)
  show "idx_qpu = [0..<length feats] \<or> idx_qpu = []"
    by (simp add: idx_qpu_def idx_qpu_of_replicate)
next
  assume ret: "fst (batch_predict_with q R e feats doc) = Inr (preds, confs)"
  from batch_predict_Inr_shape [OF ret] preview
  show "(\<forall>i<length feats.
               refine_record (cirq_simulator e) i (feats ! i) = Inr (preds ! i, confs ! i))
            \<or> (preds = replicate (length feats) pred \<and> confs = replicate (length feats) conf)"
    by auto
next
  assume ret: "fst (batch_predict R e feats doc) = Inr (preds, confs)"
  have "\<not> (fge conf QPU_THRESHOLD \<and> feats \<noteq> [])"
  proof
    assume "fge conf QPU_THRESHOLD \<and> feats \<noteq> []"
    then have "batch_predict R e feats doc = (Inl TypeError, doc)"
      by (intro batch_predict_selected_raises [OF preview]) simp_all
    with ret show False by simp
  qed
  then have "\<not> fge conf QPU_THRESHOLD \<or> feats = []" by auto
  from batch_predict_unrefined [OF preview this, of use_shots doc] ret
  show "preds = replicate (length feats) pred" "confs = replicate (length feats) conf"
    by (simp_all add: batch_predict_def)
qed

theorem escalation_all_or_none_witness:
  "idx_qpu_of [Num (9 / 10), Num (9 / 10), Num (9 / 10)] = [0, 1, 2]
   \<and> idx_qpu_of [Num (3 / 10), Num (3 / 10), Num (3 / 10)] = []
   \<and> fst (batch_predict default_RULES (example_env example_simulator)
            [feature_below, feature_above, feature_below] None)
       = Inr ([1, 1, 1], [Num (3 / 10), Num (3 / 10), Num (3 / 10)])"
proof -
  let ?e = "example_env example_simulator"
  let ?feats = "[feature_below, feature_above, feature_below]"
  have pw: "classical_predict default_RULES (fetch_last_n ?e) = Inr (1, Num (3 / 10))"
    using example_preview_default by simp
  have a: "idx_qpu_of [Num (9 / 10), Num (9 / 10), Num (9 / 10)] = [0, 1, 2]"
    by code_simp
  have b: "idx_qpu_of (replicate (length ?feats) (Num (3 / 10))) = [0..<length ?feats]
           \<or> idx_qpu_of (replicate (length ?feats) (Num (3 / 10))) = []"
    using escalation_all_or_none [OF pw, of ?feats use_shots None "[]" "[]"] by (rule conjunct1)
  have c: "idx_qpu_of [Num (3 / 10), Num (3 / 10), Num (3 / 10)] \<noteq> [0, 1, 2]"
    by code_simp
  have d: "idx_qpu_of [Num (3 / 10), Num (3 / 10), Num (3 / 10)] = []"
    using b c by (simp add: upt_rec numeral_2_eq_2)
  have r: "fst (batch_predict default_RULES ?e ?feats None)
             = Inr ([1, 1, 1], [Num (3 / 10), Num (3 / 10), Num (3 / 10)])"
    by code_simp
  from a d r show ?thesis by simp
qed

subsection \<open>The range of the results\<close>

lemma p_up_unit:
  assumes "0 \<le> dict_get h ''1'' 0" "0 \<le> dict_get h ''0'' 0"
  shows "0 \<le> p_up h \<and> p_up h \<le> 1"
proof -
  let ?ones = "dict_get h ''1'' 0" and ?zeros = "dict_get h ''0'' 0"
  let ?total = "max (?ones + ?zeros) 1"
  have pos: "0 < ?total" by simp
  have le: "?ones \<le> ?total" using assms by simp
  have "(of_int ?ones :: rat) \<le> of_int ?total" using le by (simp only: of_int_le_iff)
  moreover have "(0 :: rat) < of_int ?total" using pos by (simp only: of_int_0_less_iff)
  moreover have "(0 :: rat) \<le> of_int ?ones" using assms(1) by simp
  ultimately have "0 \<le> (of_int ?ones :: rat) / of_int ?total
      \<and> (of_int ?ones :: rat) / of_int ?total \<le> 1"
    by (simp add: divide_le_eq)
  then show ?thesis by (simp add: p_up_def Let_def)
qed

lemma refined_conf_unit:
  assumes "0 \<le> p_up h" "p_up h \<le> 1"
  shows "in_unit (refined_conf h)"
proof -
  have "\<bar>p_up h - 1 / 2\<bar> * 2 \<le> 1" using assms by (rule twice_distance_from_half)
  moreover have "0 \<le> \<bar>p_up h - 1 / 2\<bar> * 2" by simp
  ultimately have "0 \<le> round2 (\<bar>p_up h - 1 / 2\<bar> * 2) \<and> round2 (\<bar>p_up h - 1 / 2\<bar> * 2) \<le> 1"
    by (intro round2_unit)
  then show ?thesis by (simp add: refined_conf_def)
qed

text \<open>A histogram of \<open>shots_per_row\<close> repetitions has two counts that are not negative.\<close>

lemma count_histogram_counts:
  assumes "length r = shots_per_row"
  shows "0 \<le> dict_get (count_histogram r) ''1'' 0 \<and> 0 \<le> dict_get (count_histogram r) ''0'' 0"
proof -
  have "length (filter (\<lambda>b. b) r) \<le> shots_per_row"
    using length_filter_le [of "\<lambda>b. b" r] assms by simp
  then show ?thesis by (simp add: count_histogram_def Let_def dict_get_def)
qed

lemma run_histogram_unit:
  assumes "run_histogram s k c = Inr h"
  shows "0 \<le> p_up h \<and> p_up h \<le> 1"
proof -
  from assms obtain r where r: "simulator_run s k c shots_per_row = Inr r"
    and h: "h = count_histogram r"
    by (auto simp: run_histogram_def and_then_eq_Inr)
  from r have "length r = shots_per_row"
    by (auto simp: simulator_run_def split: option.splits)
  from count_histogram_counts [OF this] show ?thesis
    unfolding h by (intro p_up_unit) simp_all
qed

lemma refine_record_range:
  assumes "refine_record s k f = Inr (p, c)"
  shows "(p = 1 \<or> p = - 1) \<and> in_unit c"
proof -
  from assms obtain ci h where "run_histogram s k ci = Inr h"
    and p: "p = refined_pred h" and c: "c = refined_conf h"
    by (auto simp: refine_record_def and_then_eq_Inr)
  from run_histogram_unit [OF this(1)] have "0 \<le> p_up h" "p_up h \<le> 1" by simp_all
  from refined_conf_unit [OF this] show ?thesis
    by (simp add: p c refined_pred_def)
qed

lemma example_unrefined:
  "fst (batch_predict default_RULES (example_env example_simulator)
          [feature_below, feature_above, feature_below] None)
     = Inr ([1, 1, 1], [Num (3 / 10), Num (3 / 10), Num (3 / 10)])"
  by code_simp

text \<open>
  Claim C7 says that every confidence \<open>batch_predict\<close> returns lies in \<open>[0, 1]\<close>. The
  override file is read with \<open>json.loads\<close>, which accepts \<open>NaN\<close> as a number. With the
  trend weight \<open>nan\<close> the score is \<open>nan\<close>, the preview is \<open>(-1, nan)\<close>, nothing is selected
  (\<open>nan \<ge> 0.75\<close> is false) and \<open>batch_predict\<close> returns the confidence \<open>nan\<close> for every
  record.
\<close>

theorem nan_weight_gives_nan_confidence:
  "load_RULES [''best_params.json'' \<mapsto> Params [''ma_trend_weight'' \<mapsto> Number NaN]]
     = Inr nan_RULES
   \<and> fst (batch_predict nan_RULES (example_env example_simulator)
            [feature_below, feature_above, feature_below] None)
       = Inr ([- 1, - 1, - 1], [NaN, NaN, NaN])
   \<and> \<not> in_unit NaN"
proof -
  have "load_RULES [''best_params.json'' \<mapsto> Params [''ma_trend_weight'' \<mapsto> Number NaN]]
          = Inr nan_RULES"
    by (simp add: load_RULES_def)
  with example_nan show ?thesis by simp
qed

text \<open>
  Claim C7 as amended. Every pair that \<open>batch_predict\<close> returns, carried over from the
  preview or recomputed from a histogram, whatever the quota call did, has a signal that
  is \<open>+1\<close> or \<open>-1\<close> and a confidence that is a number in \<open>[0, 1]\<close> or \<open>nan\<close>. The confidence
  is a number in \<open>[0, 1]\<close> whenever the four weights in \<open>RULES\<close> are finite numbers.
\<close>

theorem batch_predict_results_in_range:
  assumes ret: "fst (batch_predict_with q R e feats doc) = Inr (preds, confs)"
  shows "(\<forall>p \<in> set preds. p = 1 \<or> p = - 1)
       \<and> (\<forall>c \<in> set confs. in_unit c \<or> c = NaN)
       \<and> (finite_weights R \<longrightarrow> (\<forall>c \<in> set confs. in_unit c))"
proof -
  from batch_predict_Inr_shape [OF ret] obtain pred conf where
    preview: "classical_predict R (fetch_last_n e) = Inr (pred, conf)" and
    shape: "(preds = replicate (length feats) pred \<and> confs = replicate (length feats) conf)
            \<or> (length preds = length feats \<and> length confs = length feats \<and>
                (\<forall>i<length feats.
                   refine_record (cirq_simulator e) i (feats ! i) = Inr (preds ! i, confs ! i)))"
    by blast
  from shape show ?thesis
  proof
    assume "preds = replicate (length feats) pred \<and> confs = replicate (length feats) conf"
    with classical_predict_range [OF preview] show ?thesis by auto
  next
    assume refined: "length preds = length feats \<and> length confs = length feats \<and>
                (\<forall>i<length feats.
                   refine_record (cirq_simulator e) i (feats ! i) = Inr (preds ! i, confs ! i))"
    have one: "(preds ! i = 1 \<or> preds ! i = - 1) \<and> in_unit (confs ! i)"
      if "i < length feats" for i
      using refined that by (intro refine_record_range [of "cirq_simulator e" i "feats ! i"]) simp
    have "p = 1 \<or> p = - 1" if "p \<in> set preds" for p
    proof -
      from that obtain i where "i < length preds" "preds ! i = p"
        by (auto simp: in_set_conv_nth)
      with refined one [of i] show ?thesis by auto
    qed
    moreover have "in_unit c" if "c \<in> set confs" for c
    proof -
      from that obtain i where "i < length confs" "confs ! i = c"
        by (auto simp: in_set_conv_nth)
      with refined one [of i] show ?thesis by auto
    qed
    ultimately show ?thesis by blast
  qed
qed

text \<open>
  The theorem on a return of the code as written (the preview, under the default
  parameters) and on a refined return under the reservation the docstring describes.
\<close>

theorem batch_predict_results_in_range_witness:
  "fst (batch_predict_with use_shots default_RULES (example_env example_simulator)
          [feature_below, feature_above, feature_below] None)
     = Inr ([1, 1, 1], [Num (3 / 10), Num (3 / 10), Num (3 / 10)])
   \<and> finite_weights default_RULES
   \<and> list_all in_unit [Num (3 / 10), Num (3 / 10), Num (3 / 10)]
   \<and> finite_weights tuned_RULES
   \<and> list_all (\<lambda>p. p = 1 \<or> p = - 1) [- 1, 1, - 1 :: int]
   \<and> list_all in_unit [Num (2 / 5), Num (3 / 5), Num (2 / 5)]"
proof -
  have u: "fst (batch_predict_with use_shots default_RULES (example_env example_simulator)
          [feature_below, feature_above, feature_below] None)
     = Inr ([1, 1, 1], [Num (3 / 10), Num (3 / 10), Num (3 / 10)])"
    using example_unrefined by (simp add: batch_predict_def)
  have f1: "finite_weights default_RULES"
    by (simp add: finite_weights_def weight_keys_def default_RULES_def)
  have f2: "finite_weights tuned_RULES"
    by (simp add: finite_weights_def weight_keys_def default_RULES_def)
  from batch_predict_results_in_range [OF u] batch_predict_results_in_range [OF example_refined]
    u f1 f2
  show ?thesis by (simp add: list_all_iff)
qed

section \<open>Properties of parameter loading\<close>

text \<open>
  Claim C8 says that a malformed override source makes loading fall back to the
  compiled-in defaults. It does not: with a malformed \<open>best_params.json\<close>, or a malformed
  \<open>rules.json\<close> and no \<open>best_params.json\<close>, loading ends in the decoding error.
\<close>

theorem malformed_override_not_tolerated:
  "load_RULES [''best_params.json'' \<mapsto> Malformed] = Inl JSONDecodeError
   \<and> load_RULES [''best_params.json'' \<mapsto> Malformed] \<noteq> Inr default_RULES
   \<and> load_RULES [''rules.json'' \<mapsto> Malformed] = Inl JSONDecodeError"
  by (simp add: load_RULES_def)

text \<open>
  Claim C8 as amended. Let \<open>f\<close> be the first override source that exists,
  \<open>best_params.json\<close> before \<open>rules.json\<close>. If \<open>f\<close> is not JSON, loading raises the decoding
  error to its caller; if \<open>f\<close> is JSON that \<open>dict.update\<close> does not take, loading raises
  the \<open>TypeError\<close> or \<open>ValueError\<close> of \<open>update\<close>. In neither case does anything fall back
  to the defaults.
\<close>

theorem malformed_override_is_fatal:
  "(files ''best_params.json'' = Some f
      \<or> (files ''best_params.json'' = None \<and> files ''rules.json'' = Some f)) \<longrightarrow>
     (f = Malformed \<longrightarrow> load_RULES files = Inl JSONDecodeError)
     \<and> (f = Rejected err \<longrightarrow> load_RULES files = Inl err)"
  by (auto simp: load_RULES_def)

theorem malformed_override_is_fatal_witness:
  "load_RULES [''rules.json'' \<mapsto> Malformed] = Inl JSONDecodeError
   \<and> load_RULES [''best_params.json'' \<mapsto> Rejected TypeError] = Inl TypeError
   \<and> load_RULES [''rules.json'' \<mapsto> Rejected ValueError] = Inl ValueError"
proof -
  have a: "load_RULES [''rules.json'' \<mapsto> Malformed] = Inl JSONDecodeError"
    using malformed_override_is_fatal [of "[''rules.json'' \<mapsto> Malformed]" Malformed] by simp
  have b: "load_RULES [''best_params.json'' \<mapsto> Rejected TypeError] = Inl TypeError"
    using malformed_override_is_fatal
      [of "[''best_params.json'' \<mapsto> Rejected TypeError]" "Rejected TypeError" TypeError]
    by simp
  have c: "load_RULES [''rules.json'' \<mapsto> Rejected ValueError] = Inl ValueError"
    using malformed_override_is_fatal
      [of "[''rules.json'' \<mapsto> Rejected ValueError]" "Rejected ValueError" ValueError]
    by simp
  from a b c show ?thesis by simp
qed

section \<open>Properties of the tuning objective\<close>

lemma objective_result:
  "fst (objective tr target envs download R doc) =
     (case fst (run_backtest R envs download doc) of
        Inl err \<Rightarrow> Inl err
      | Inr (result_df, hit_rate) \<Rightarrow> Inr (fsub hit_rate (fabs (fsub target hit_rate))))"
  by (simp add: objective_def Let_def split: prod.splits sum.splits)

lemma objective_state:
  "snd (objective tr target envs download R doc) =
     (set_user_attrs tr (suggest_params tr), R, snd (run_backtest R envs download doc))"
  by (simp add: objective_def Let_def split: prod.splits sum.splits)

lemma example_trial_metric:
  "fst (objective lowest_sampler (Num (1 / 10))
          (\<lambda>k. example_env example_simulator) (Inr example_closes) default_RULES None)
     = Inr (Num (1 / 10))"
  by code_simp

lemma example_candidate_preview:
  "classical_predict (candidate_RULES default_RULES lowest_sampler) (Inr example_closes)
     = Inr (- 1, Num 1)"
  by code_simp

lemma example_default_hit_rate:
  "map_sum id snd (fst (run_backtest default_RULES
     (\<lambda>k. example_env example_simulator) (Inr example_closes) None)) = Inr (Num 1)"
  by code_simp

lemma example_default_signal:
  "map_sum id (\<lambda>r. map signal (fst r)) (fst (run_backtest default_RULES
     (\<lambda>k. example_env example_simulator) (Inr example_closes) None)) = Inr [1]"
  by code_simp

text \<open>
  Claim C9 says that the candidate parameters of a trial are visible to the scorer while
  the trial runs. In the code they are not. \<open>objective\<close> stores the sampled values as user
  attributes of the trial and then runs the backtest; \<open>RULES\<close> is the same before and
  after, the backtest scores with it, and so the metric of a trial does not depend on
  what was sampled. At the trial that samples the lower end of every range (all four
  weights \<open>-1\<close>), on the eight example closes: the candidate parameters would give the
  preview \<open>(-1, 1.0)\<close>, but the backtest of the trial scores with the unchanged defaults,
  its only row carries the signal \<open>+1\<close>, the hit rate is 1 and the metric 0.1.
\<close>

theorem objective_scores_with_unchanged_RULES:
  "fst (objective tr target envs download R doc)
     = fst (objective tr' target envs download R doc)
   \<and> fst (snd (snd (objective tr target envs download R doc))) = R
   \<and> fst (objective tr target envs download R doc) =
       (case fst (run_backtest R envs download doc) of
          Inl err \<Rightarrow> Inl err
        | Inr (result_df, hit_rate) \<Rightarrow> Inr (fsub hit_rate (fabs (fsub target hit_rate))))
   \<and> fst (objective lowest_sampler (Num (1 / 10))
            (\<lambda>k. example_env example_simulator) (Inr example_closes) default_RULES None)
       = Inr (Num (1 / 10))
   \<and> map_sum id snd (fst (run_backtest default_RULES
        (\<lambda>k. example_env example_simulator) (Inr example_closes) None)) = Inr (Num 1)
   \<and> map_sum id (\<lambda>r. map signal (fst r)) (fst (run_backtest default_RULES
        (\<lambda>k. example_env example_simulator) (Inr example_closes) None)) = Inr [1]
   \<and> classical_predict (candidate_RULES default_RULES lowest_sampler) (Inr example_closes)
       = Inr (- 1, Num 1)"
proof -
  have same: "fst (objective tr target envs download R doc)
                = fst (objective tr' target envs download R doc)"
    by (simp only: objective_result)
  have kept: "fst (snd (snd (objective tr target envs download R doc))) = R"
    by (simp add: objective_state)
  from same kept objective_result [of tr target envs download R doc]
    example_trial_metric example_default_hit_rate example_default_signal
    example_candidate_preview
  show ?thesis by (simp only: simp_thms)
qed

end
